theory Spec2Isabelle
  imports Main "HOL-Library.AList"
begin

section \<open>Data model\<close>

text \<open>
  The cookie jar of \<^verbatim>\<open>next/headers\<close> is a dictionary from cookie names to cookies.
  A cookie written by this program carries the options given to \<^verbatim>\<open>cookieStore.set\<close>;
  a cookie that arrived with the incoming request carries none. The jar deletes a
  cookie by overwriting it with an empty value whose expiry date is the epoch:
  \<open>expiresAtEpoch\<close> marks such an entry.
\<close>

record cookie_options =
  httpOnly :: bool
  secure :: bool
  sameSite :: string
  path :: string
  maxAge :: nat

record cookie =
  cvalue :: string
  coptions :: "cookie_options option"
  expiresAtEpoch :: bool

type_synonym cookie_store = "string \<rightharpoonup> cookie"

text \<open>\<^verbatim>\<open>process.env\<close>: both variables may be undefined.\<close>

record env =
  NODE_ENV :: "string option"
  NEXT_PUBLIC_API_URL :: "string option"

text \<open>A JavaScript object used as a header record: keys in insertion order.\<close>

type_synonym header_record = "(string \<times> string) list"

record requestInit =
  "method" :: "string option"
  body :: "string option"
  headers :: header_record

record fetchWithAuthOptions = requestInit +
  skipRefresh :: "bool option"

type_synonym request = "string \<times> requestInit"

record response =
  status :: nat
  getSetCookie :: "string list"
  rbody :: string

text \<open>Thrown values: \<^verbatim>\<open>new Error(msg)\<close>, and the \<^verbatim>\<open>TypeError\<close> a rejected \<^verbatim>\<open>fetch\<close> throws.\<close>

datatype js_error = Error string | TypeError string

text \<open>
  The remote side: what a call yields may depend on every call issued before it.
  The state of one server-side request context is the cookie jar, the calls issued so
  far, and what was written to the console.
\<close>

type_synonym network = "request list \<Rightarrow> request \<Rightarrow> js_error + response"

record state =
  cookieStore :: cookie_store
  sent :: "request list"
  console :: "(string \<times> js_error) list"

section \<open>JavaScript primitives\<close>

text \<open>Truthiness of \<^verbatim>\<open>string | undefined\<close> and of \<^verbatim>\<open>boolean | undefined\<close>.\<close>

fun truthy :: "string option \<Rightarrow> bool" where
  "truthy None = False"
| "truthy (Some s) = (s \<noteq> [])"

fun truthy_flag :: "bool option \<Rightarrow> bool" where
  "truthy_flag None = False"
| "truthy_flag (Some b) = b"

text \<open>A template literal renders an undefined value as the text \<^verbatim>\<open>undefined\<close>.\<close>

fun template :: "string option \<Rightarrow> string" where
  "template None = ''undefined''"
| "template (Some s) = s"

text \<open>
  \<^verbatim>\<open>s.match(/key=([^;]+)/)\<close>: the leftmost place where \<^verbatim>\<open>key=\<close> is followed by at least
  one character other than a semicolon; the group is the longest such run.
  \<open>match_token\<close> takes the literal part, \<^verbatim>\<open>key=\<close>, and gives the group.
\<close>

fun match_token :: "string \<Rightarrow> string \<Rightarrow> string option" where
  "match_token lit [] = None"
| "match_token lit (c # cs) =
     (if take (length lit) (c # cs) = lit
         \<and> takeWhile (\<lambda>x. x \<noteq> CHR '';'') (drop (length lit) (c # cs)) \<noteq> []
      then Some (takeWhile (\<lambda>x. x \<noteq> CHR '';'') (drop (length lit) (c # cs)))
      else match_token lit cs)"

text \<open>\<^verbatim>\<open>Array.prototype.join\<close>.\<close>

fun join :: "string \<Rightarrow> string list \<Rightarrow> string" where
  "join sep [] = []"
| "join sep [x] = x"
| "join sep (x # y # ys) = x @ sep @ join sep (y # ys)"

text \<open>Object spread \<^verbatim>\<open>{...a, ...b}\<close>: a key of \<open>b\<close> overwrites in place or is appended.\<close>

definition spread :: "header_record \<Rightarrow> header_record \<Rightarrow> header_record" where
  "spread a b = fold (\<lambda>kv. AList.update (fst kv) (snd kv)) b a"

text \<open>\<^verbatim>\<open>Response.ok\<close>.\<close>

definition ok :: "response \<Rightarrow> bool" where
  "ok r = (200 \<le> status r \<and> status r \<le> 299)"

text \<open>\<^verbatim>\<open>fetch\<close> records the call and yields what the remote side answers.\<close>

definition fetch :: "network \<Rightarrow> request \<Rightarrow> state \<Rightarrow> (js_error + response) \<times> state" where
  "fetch net req st = (net (sent st) req, st\<lparr>sent := sent st @ [req]\<rparr>)"

section \<open>The cookie jar\<close>

text \<open>
  The operations of the library's jar that the source calls, as they behave in a server
  action: \<^verbatim>\<open>set\<close> writes or overwrites the cookie of a name and \<^verbatim>\<open>get\<close> reads it.
  \<^verbatim>\<open>delete(name)\<close> is the jar's \<^verbatim>\<open>set({name, value: '', expires: new Date(0)})\<close>: the entry
  is overwritten, or created when the cookie was absent, with the empty value and an
  expiry at the epoch, which tells the browser to drop the cookie. A later \<^verbatim>\<open>get\<close> in the
  same request therefore yields the empty string, not \<^verbatim>\<open>undefined\<close>.
\<close>

definition cookieStore_set :: "string \<Rightarrow> string \<Rightarrow> cookie_options \<Rightarrow> cookie_store \<Rightarrow> cookie_store" where
  "cookieStore_set name v opts cs = cs(name \<mapsto> \<lparr>cvalue = v, coptions = Some opts, expiresAtEpoch = False\<rparr>)"

definition cookieStore_get :: "string \<Rightarrow> cookie_store \<Rightarrow> cookie option" where
  "cookieStore_get name cs = cs name"

definition cookieStore_delete :: "string \<Rightarrow> cookie_store \<Rightarrow> cookie_store" where
  "cookieStore_delete name cs =
     cs(name \<mapsto> \<lparr>cvalue = [], coptions = None, expiresAtEpoch = True\<rparr>)"

section \<open>src/lib/auth.ts\<close>

text \<open>The body of the loop of \<^verbatim>\<open>extractAndSetCookies\<close>, for one header.\<close>

definition extractAndSetCookie :: "env \<Rightarrow> string \<Rightarrow> cookie_store \<Rightarrow> cookie_store" where
  "extractAndSetCookie e setCookieHeader cs =
     (let cs1 = (case match_token ''access_token='' setCookieHeader of
                   Some v \<Rightarrow> cookieStore_set ''access_token'' v
                     \<lparr>httpOnly = True, secure = (NODE_ENV e = Some ''production''),
                      sameSite = ''lax'', path = ''/'', maxAge = 15 * 60\<rparr> cs
                 | None \<Rightarrow> cs)
      in (case match_token ''refresh_token='' setCookieHeader of
            Some v \<Rightarrow> cookieStore_set ''refresh_token'' v
              \<lparr>httpOnly = True, secure = (NODE_ENV e = Some ''production''),
               sameSite = ''lax'', path = ''/'', maxAge = 10080 * 60\<rparr> cs1
          | None \<Rightarrow> cs1))"

fun extractAndSetCookies :: "env \<Rightarrow> string list \<Rightarrow> cookie_store \<Rightarrow> cookie_store" where
  "extractAndSetCookies e [] cs = cs"
| "extractAndSetCookies e (h # hs) cs = extractAndSetCookies e hs (extractAndSetCookie e h cs)"

definition getAuthToken :: "cookie_store \<Rightarrow> string option" where
  "getAuthToken cs = map_option cvalue (cookieStore_get ''access_token'' cs)"

definition getRefreshToken :: "cookie_store \<Rightarrow> string option" where
  "getRefreshToken cs = map_option cvalue (cookieStore_get ''refresh_token'' cs)"

definition getAuthHeaders :: "cookie_store \<Rightarrow> header_record" where
  "getAuthHeaders cs =
     (let accessToken = getAuthToken cs;
          refreshToken = getRefreshToken cs;
          cookieHeader =
            (if truthy accessToken then [''access_token='' @ the accessToken] else [])
            @ (if truthy refreshToken then [''refresh_token='' @ the refreshToken] else [])
      in spread [(''Content-Type'', ''application/json'')]
           (if length cookieHeader > 0 then [(''Cookie'', join ''; '' cookieHeader)] else []))"

definition requireAuth :: "cookie_store \<Rightarrow> js_error + string" where
  "requireAuth cs =
     (let token = getAuthToken cs
      in if \<not> truthy token then Inl (Error ''No authentication token found'')
         else Inr (the token))"

definition clearAuthCookies :: "cookie_store \<Rightarrow> cookie_store" where
  "clearAuthCookies cs = cookieStore_delete ''refresh_token'' (cookieStore_delete ''access_token'' cs)"

text \<open>The call to the refresh endpoint, and the call to the logout endpoint.\<close>

definition refresh_request :: "env \<Rightarrow> string \<Rightarrow> request" where
  "refresh_request e refreshToken =
     (template (NEXT_PUBLIC_API_URL e) @ ''/api/auth/refresh'',
      \<lparr>method = Some ''POST'', body = None,
       headers = [(''Content-Type'', ''application/json''),
                  (''Cookie'', ''refresh_token='' @ refreshToken)]\<rparr>)"

definition logout_request :: "env \<Rightarrow> string \<Rightarrow> request" where
  "logout_request e refreshToken =
     (template (NEXT_PUBLIC_API_URL e) @ ''/api/auth/logout'',
      \<lparr>method = Some ''POST'', body = None,
       headers = [(''Content-Type'', ''application/json''),
                  (''Cookie'', ''refresh_token='' @ refreshToken)]\<rparr>)"

text \<open>
  The request \<^verbatim>\<open>fetchWithAuth\<close> issues for the caller, first and on the retry:
  \<^verbatim>\<open>fetch(url, {...fetchOptions, headers: {...headers, ...fetchOptions.headers}})\<close>.
\<close>

definition auth_request :: "string \<Rightarrow> fetchWithAuthOptions \<Rightarrow> cookie_store \<Rightarrow> request" where
  "auth_request u options cs =
     (u, (requestInit.truncate options)\<lparr>headers := spread (getAuthHeaders cs) (headers options)\<rparr>)"

text \<open>The body of the \<^verbatim>\<open>try\<close> block of \<^verbatim>\<open>fetchWithAuth\<close>.\<close>

definition refresh_and_retry ::
  "env \<Rightarrow> network \<Rightarrow> string \<Rightarrow> fetchWithAuthOptions \<Rightarrow> string \<Rightarrow> state
     \<Rightarrow> (js_error + response) \<times> state" where
  "refresh_and_retry e net u options refreshToken st =
     (case fetch net (refresh_request e refreshToken) st of
        (Inl err, st1) \<Rightarrow> (Inl err, st1)
      | (Inr refreshResponse, st1) \<Rightarrow>
          if \<not> ok refreshResponse
          then (Inl (Error ''Session expired. Please login again.''),
                st1\<lparr>cookieStore := clearAuthCookies (cookieStore st1)\<rparr>)
          else
            let setCookieHeaders = getSetCookie refreshResponse;
                st2 = (if length setCookieHeaders > 0
                       then st1\<lparr>cookieStore :=
                              extractAndSetCookies e setCookieHeaders (cookieStore st1)\<rparr>
                       else st1)
            in fetch net (auth_request u options (cookieStore st2)) st2)"

definition fetchWithAuth ::
  "env \<Rightarrow> network \<Rightarrow> string \<Rightarrow> fetchWithAuthOptions \<Rightarrow> state
     \<Rightarrow> (js_error + response) \<times> state" where
  "fetchWithAuth e net u options st =
     (case fetch net (auth_request u options (cookieStore st)) st of
        (Inl err, st1) \<Rightarrow> (Inl err, st1)
      | (Inr resp, st1) \<Rightarrow>
          if status resp = 401 \<and> \<not> truthy_flag (skipRefresh options)
          then
            let refreshToken = getRefreshToken (cookieStore st1)
            in if \<not> truthy refreshToken
               then (Inl (Error ''Unauthorized: No refresh token available''), st1)
               else
                 (case refresh_and_retry e net u options (the refreshToken) st1 of
                    (Inl err, st2) \<Rightarrow>
                      (Inl err, st2\<lparr>cookieStore := clearAuthCookies (cookieStore st2)\<rparr>)
                  | (Inr retryResponse, st2) \<Rightarrow> (Inr retryResponse, st2))
          else (Inr resp, st1))"

section \<open>The logout action\<close>

definition logout :: "env \<Rightarrow> network \<Rightarrow> state \<Rightarrow> (js_error + unit) \<times> state" where
  "logout e net st =
     (let refreshToken = getRefreshToken (cookieStore st);
          st1 = (if truthy refreshToken
                 then (case fetch net (logout_request e (the refreshToken)) st of
                         (Inl err, st') \<Rightarrow>
                           st'\<lparr>console := console st' @ [(''Logout request failed:'', err)]\<rparr>
                       | (Inr r, st') \<Rightarrow> st')
                 else st)
      in (Inr (), st1\<lparr>cookieStore := clearAuthCookies (cookieStore st1)\<rparr>))"

section \<open>Vocabulary of the statements\<close>

text \<open>
  The cookie \<^verbatim>\<open>extractAndSetCookies\<close> writes for a value: the options of the source, with
  the max-age left open.
\<close>

definition stored_cookie :: "env \<Rightarrow> string \<Rightarrow> nat \<Rightarrow> cookie" where
  "stored_cookie e v age =
     \<lparr>cvalue = v,
      coptions = Some \<lparr>httpOnly = True, secure = (NODE_ENV e = Some ''production''),
                        sameSite = ''lax'', path = ''/'', maxAge = age\<rparr>,
      expiresAtEpoch = False\<rparr>"

text \<open>The entry the jar's \<^verbatim>\<open>delete\<close> leaves under a name.\<close>

definition deleted_cookie :: cookie where
  "deleted_cookie = \<lparr>cvalue = [], coptions = None, expiresAtEpoch = True\<rparr>"

text \<open>
  Concrete inputs. A scripted remote side answers the \<open>n\<close>-th call with the \<open>n\<close>-th
  entry of the script, and rejects every later call the way \<^verbatim>\<open>fetch\<close> does when the
  network is down.
\<close>

definition scripted :: "(js_error + response) list \<Rightarrow> network" where
  "scripted outs issued req =
     (if length issued < length outs then outs ! length issued
      else Inl (TypeError ''fetch failed''))"

definition example_env :: env where
  "example_env =
     \<lparr>NODE_ENV = Some ''production'', NEXT_PUBLIC_API_URL = Some ''https://api.example''\<rparr>"

definition example_store :: cookie_store where
  "example_store =
     [''access_token'' \<mapsto> \<lparr>cvalue = ''AAA'', coptions = None, expiresAtEpoch = False\<rparr>,
      ''refresh_token'' \<mapsto> \<lparr>cvalue = ''BBB'', coptions = None, expiresAtEpoch = False\<rparr>]"

definition access_only_store :: cookie_store where
  "access_only_store =
     [''access_token'' \<mapsto> \<lparr>cvalue = ''AAA'', coptions = None, expiresAtEpoch = False\<rparr>]"

definition example_state :: "cookie_store \<Rightarrow> state" where
  "example_state cs = \<lparr>cookieStore = cs, sent = [], console = []\<rparr>"

definition example_options :: "header_record \<Rightarrow> bool option \<Rightarrow> fetchWithAuthOptions" where
  "example_options hs skip =
     \<lparr>method = Some ''GET'', body = None, headers = hs, skipRefresh = skip\<rparr>"

definition example_response :: "nat \<Rightarrow> string list \<Rightarrow> response" where
  "example_response code directives =
     \<lparr>status = code, getSetCookie = directives, rbody = []\<rparr>"

section \<open>Auxiliary facts\<close>

lemma clearAuthCookies_entries:
  "clearAuthCookies cs
     = cs(''access_token'' \<mapsto> deleted_cookie, ''refresh_token'' \<mapsto> deleted_cookie)"
  by (simp add: clearAuthCookies_def cookieStore_delete_def deleted_cookie_def)

lemma getAuthToken_clear: "getAuthToken (clearAuthCookies cs) = Some []"
  by (simp add: getAuthToken_def clearAuthCookies_def cookieStore_get_def cookieStore_delete_def)

lemma getRefreshToken_clear: "getRefreshToken (clearAuthCookies cs) = Some []"
  by (simp add: getRefreshToken_def clearAuthCookies_def cookieStore_get_def
      cookieStore_delete_def)

lemma getAuthHeaders_without_tokens:
  assumes "\<not> truthy (getAuthToken cs)" and "\<not> truthy (getRefreshToken cs)"
  shows "getAuthHeaders cs = [(''Content-Type'', ''application/json'')]"
  using assms by (simp add: getAuthHeaders_def spread_def)

lemma getAuthHeaders_clear:
  "getAuthHeaders (clearAuthCookies cs) = [(''Content-Type'', ''application/json'')]"
  by (rule getAuthHeaders_without_tokens)
     (simp_all add: getAuthToken_clear getRefreshToken_clear)

lemma clearAuthCookies_idem: "clearAuthCookies (clearAuthCookies cs) = clearAuthCookies cs"
  by (simp add: clearAuthCookies_def cookieStore_delete_def)

lemma match_token_nonempty: "match_token lit s = Some v \<Longrightarrow> v \<noteq> []"
  by (induction lit s rule: match_token.induct) (auto split: if_splits)

subsection \<open>Object spread\<close>

lemma map_of_spread: "map_of (spread a b) = map_of a ++ map_of (rev b)"
  unfolding spread_def
proof (induction b arbitrary: a)
  case Nil
  then show ?case by simp
next
  case (Cons kv b)
  have "map_of (fold (\<lambda>kv. AList.update (fst kv) (snd kv)) (kv # b) a)
          = map_of (AList.update (fst kv) (snd kv) a) ++ map_of (rev b)"
    by (simp add: Cons.IH)
  also have "\<dots> = (map_of a ++ [fst kv \<mapsto> snd kv]) ++ map_of (rev b)"
    by (simp add: update_conv')
  also have "\<dots> = map_of a ++ map_of (rev (kv # b))"
    by (cases kv) simp
  finally show ?case .
qed

lemma map_of_spread_absent:
  assumes "k \<notin> fst ` set b"
  shows "map_of (spread a b) k = map_of a k"
proof -
  from assms have "map_of (rev b) k = None"
    by (simp add: map_of_eq_None_iff)
  then show ?thesis
    by (simp add: map_of_spread map_add_def)
qed

subsection \<open>The loop over the directives\<close>

lemma extractAndSetCookies_append:
  "extractAndSetCookies e (xs @ ys) cs = extractAndSetCookies e ys (extractAndSetCookies e xs cs)"
  by (induction xs arbitrary: cs) simp_all

lemma extractAndSetCookie_access:
  "match_token ''access_token='' h = Some v \<Longrightarrow>
   extractAndSetCookie e h cs ''access_token'' = Some (stored_cookie e v 900)"
  by (simp add: extractAndSetCookie_def cookieStore_set_def Let_def stored_cookie_def
      split: option.splits)

lemma extractAndSetCookie_refresh:
  "match_token ''refresh_token='' h = Some v \<Longrightarrow>
   extractAndSetCookie e h cs ''refresh_token'' = Some (stored_cookie e v 604800)"
  by (simp add: extractAndSetCookie_def cookieStore_set_def Let_def stored_cookie_def
      split: option.splits)

lemma extractAndSetCookie_access_none:
  "match_token ''access_token='' h = None \<Longrightarrow>
   extractAndSetCookie e h cs ''access_token'' = cs ''access_token''"
  by (simp add: extractAndSetCookie_def cookieStore_set_def Let_def split: option.splits)

lemma extractAndSetCookie_refresh_none:
  "match_token ''refresh_token='' h = None \<Longrightarrow>
   extractAndSetCookie e h cs ''refresh_token'' = cs ''refresh_token''"
  by (simp add: extractAndSetCookie_def cookieStore_set_def Let_def split: option.splits)

lemma extractAndSetCookies_access_none:
  "\<forall>h\<in>set hs. match_token ''access_token='' h = None \<Longrightarrow>
   extractAndSetCookies e hs cs ''access_token'' = cs ''access_token''"
  by (induction hs arbitrary: cs) (simp_all add: extractAndSetCookie_access_none)

lemma extractAndSetCookies_refresh_none:
  "\<forall>h\<in>set hs. match_token ''refresh_token='' h = None \<Longrightarrow>
   extractAndSetCookies e hs cs ''refresh_token'' = cs ''refresh_token''"
  by (induction hs arbitrary: cs) (simp_all add: extractAndSetCookie_refresh_none)

lemma extractAndSetCookies_access_last:
  assumes "match_token ''access_token='' h = Some v"
      and "\<forall>h'\<in>set post. match_token ''access_token='' h' = None"
  shows "extractAndSetCookies e (pre @ h # post) cs ''access_token''
           = Some (stored_cookie e v 900)"
  using assms
  by (simp add: extractAndSetCookies_append extractAndSetCookies_access_none
      extractAndSetCookie_access)

lemma extractAndSetCookies_refresh_last:
  assumes "match_token ''refresh_token='' h = Some v"
      and "\<forall>h'\<in>set post. match_token ''refresh_token='' h' = None"
  shows "extractAndSetCookies e (pre @ h # post) cs ''refresh_token''
           = Some (stored_cookie e v 604800)"
  using assms
  by (simp add: extractAndSetCookies_append extractAndSetCookies_refresh_none
      extractAndSetCookie_refresh)

subsection \<open>The credential header\<close>

lemma getAuthHeaders_Cookie_access:
  assumes "getAuthToken cs = Some v" and "v \<noteq> []"
  shows "\<exists>rest. map_of (getAuthHeaders cs) ''Cookie'' = Some (''access_token='' @ v @ rest)"
proof (cases "truthy (getRefreshToken cs)")
  case True
  with assms have "map_of (getAuthHeaders cs) ''Cookie''
      = Some (''access_token='' @ v @ (''; refresh_token='' @ the (getRefreshToken cs)))"
    by (simp add: getAuthHeaders_def spread_def)
  then show ?thesis by blast
next
  case False
  with assms have "map_of (getAuthHeaders cs) ''Cookie'' = Some (''access_token='' @ v @ [])"
    by (simp add: getAuthHeaders_def spread_def)
  then show ?thesis by blast
qed

subsection \<open>The renewal round trip\<close>

lemma refresh_and_retry_rejected:
  assumes "net (sent st) (refresh_request e rt) = out"
      and "\<forall>rr. out = Inr rr \<longrightarrow> \<not> ok rr"
  shows "refresh_and_retry e net u options rt st =
           (Inl (case out of Inl err \<Rightarrow> err
                 | Inr rr \<Rightarrow> Error ''Session expired. Please login again.''),
            st\<lparr>cookieStore := (case out of Inl err \<Rightarrow> cookieStore st
                                 | Inr rr \<Rightarrow> clearAuthCookies (cookieStore st)),
               sent := sent st @ [refresh_request e rt]\<rparr>)"
  using assms by (cases out) (simp_all add: refresh_and_retry_def fetch_def)

lemma refresh_and_retry_accepted:
  assumes "net (sent st) (refresh_request e rt) = Inr rr"
      and "ok rr"
  shows "refresh_and_retry e net u options rt st =
           (net (sent st @ [refresh_request e rt])
              (auth_request u options (extractAndSetCookies e (getSetCookie rr) (cookieStore st))),
            st\<lparr>cookieStore := extractAndSetCookies e (getSetCookie rr) (cookieStore st),
               sent := sent st @ [refresh_request e rt,
                 auth_request u options
                   (extractAndSetCookies e (getSetCookie rr) (cookieStore st))]\<rparr>)"
proof (cases "getSetCookie rr")
  case Nil
  with assms show ?thesis by (simp add: refresh_and_retry_def fetch_def)
next
  case (Cons h hs)
  with assms show ?thesis by (simp add: refresh_and_retry_def fetch_def Let_def)
qed

section \<open>Responses that are not a 401\<close>

text \<open>
  Claim C6. When the first call yields a response whose status is anything but 401, that
  response is the result, unchanged; the only call issued is the first one (no renewal,
  no retry), and the cookie jar is as it was.
\<close>

theorem fetchWithAuth_non_401:
  assumes "net (sent st) (auth_request u options (cookieStore st)) = Inr resp"
      and "status resp \<noteq> 401"
  shows "fetchWithAuth e net u options st =
           (Inr resp, st\<lparr>sent := sent st @ [auth_request u options (cookieStore st)]\<rparr>)
         \<and> cookieStore (snd (fetchWithAuth e net u options st)) = cookieStore st"
  using assms by (simp add: fetchWithAuth_def fetch_def)

theorem fetchWithAuth_non_401_witness:
  "status (example_response 500 []) \<noteq> 401
   \<and> fetchWithAuth example_env (scripted [Inr (example_response 500 [])]) ''/api/user/stats''
       (example_options [] None) (example_state example_store)
     = (Inr (example_response 500 []),
        (example_state example_store)
          \<lparr>sent := [auth_request ''/api/user/stats'' (example_options [] None) example_store]\<rparr>)"
  using fetchWithAuth_non_401 [where net = "scripted [Inr (example_response 500 [])]"
      and st = "example_state example_store" and u = "''/api/user/stats''"
      and options = "example_options [] None" and resp = "example_response 500 []"
      and e = example_env]
  by (simp add: scripted_def example_state_def example_response_def)

section \<open>A 401 with renewal switched off\<close>

text \<open>
  Claim C7. When the caller passed \<^verbatim>\<open>skipRefresh\<close> and the first call yields a 401, the 401
  response is the result, unchanged: no error is raised and the only call issued is
  the first one (no renewal, no retry).
\<close>

theorem fetchWithAuth_skipRefresh:
  assumes "net (sent st) (auth_request u options (cookieStore st)) = Inr resp"
      and "status resp = 401"
      and "truthy_flag (skipRefresh options)"
  shows "fetchWithAuth e net u options st =
           (Inr resp, st\<lparr>sent := sent st @ [auth_request u options (cookieStore st)]\<rparr>)"
  using assms by (simp add: fetchWithAuth_def fetch_def)

theorem fetchWithAuth_skipRefresh_witness:
  "truthy_flag (skipRefresh (example_options [] (Some True)))
   \<and> fetchWithAuth example_env (scripted [Inr (example_response 401 [])]) ''/api/auth/refresh''
       (example_options [] (Some True)) (example_state example_store)
     = (Inr (example_response 401 []),
        (example_state example_store)
          \<lparr>sent := [auth_request ''/api/auth/refresh'' (example_options [] (Some True))
                      example_store]\<rparr>)"
  using fetchWithAuth_skipRefresh [where net = "scripted [Inr (example_response 401 [])]"
      and st = "example_state example_store" and u = "''/api/auth/refresh''"
      and options = "example_options [] (Some True)" and resp = "example_response 401 []"
      and e = example_env]
  by (simp add: scripted_def example_state_def example_response_def example_options_def)

section \<open>A 401 without a refresh token\<close>

text \<open>
  Claim C4. When the first call yields a 401, renewal is enabled and the jar holds no
  refresh token (none, or an empty one: the source tests \<^verbatim>\<open>!refreshToken\<close>), the call
  fails with the error \<^verbatim>\<open>Unauthorized: No refresh token available\<close> and the cookie jar is
  left as it was; in particular the access token is still the one stored before. Only the
  first call was issued.
\<close>

theorem fetchWithAuth_no_refresh_token:
  assumes "net (sent st) (auth_request u options (cookieStore st)) = Inr resp"
      and "status resp = 401"
      and "\<not> truthy_flag (skipRefresh options)"
      and "\<not> truthy (getRefreshToken (cookieStore st))"
  shows "fetchWithAuth e net u options st =
           (Inl (Error ''Unauthorized: No refresh token available''),
            st\<lparr>sent := sent st @ [auth_request u options (cookieStore st)]\<rparr>)
         \<and> cookieStore (snd (fetchWithAuth e net u options st)) = cookieStore st
         \<and> getAuthToken (cookieStore (snd (fetchWithAuth e net u options st)))
             = getAuthToken (cookieStore st)"
  using assms by (simp add: fetchWithAuth_def fetch_def)

theorem fetchWithAuth_no_refresh_token_witness:
  "\<not> truthy (getRefreshToken (cookieStore (example_state access_only_store)))
   \<and> fetchWithAuth example_env (scripted [Inr (example_response 401 [])]) ''/api/user/stats''
       (example_options [] None) (example_state access_only_store)
     = (Inl (Error ''Unauthorized: No refresh token available''),
        (example_state access_only_store)
          \<lparr>sent := [auth_request ''/api/user/stats'' (example_options [] None)
                      access_only_store]\<rparr>)
   \<and> getAuthToken (cookieStore (snd (fetchWithAuth example_env
         (scripted [Inr (example_response 401 [])]) ''/api/user/stats''
         (example_options [] None) (example_state access_only_store)))) = Some ''AAA''"
  using fetchWithAuth_no_refresh_token [where net = "scripted [Inr (example_response 401 [])]"
      and st = "example_state access_only_store" and u = "''/api/user/stats''"
      and options = "example_options [] None" and resp = "example_response 401 []"
      and e = example_env]
  by (simp add: scripted_def example_state_def example_response_def example_options_def
      access_only_store_def getRefreshToken_def getAuthToken_def cookieStore_get_def)

section \<open>Logout\<close>

text \<open>
  Claim C9. From every state, \<^verbatim>\<open>logout\<close> returns normally and ends with both the access
  and the refresh token deleted from the jar: each of the two cookies is the entry the
  jar's \<^verbatim>\<open>delete\<close> leaves (empty value, expiry at the epoch), so both readers give the
  empty string, which the source treats as no token, and the headers built from the jar
  carry no \<^verbatim>\<open>Cookie\<close> entry. When a refresh token is present (non-empty, as the source
  tests), exactly one call is issued: a \<^verbatim>\<open>POST\<close> to the logout endpoint whose \<^verbatim>\<open>Cookie\<close>
  header is \<^verbatim>\<open>refresh_token=\<close> followed by that token. When that call is rejected, the
  error goes to the console and is not propagated, and the jar is cleared all the same.
  When no refresh token is present, no call is issued and the jar is cleared too.
\<close>

theorem logout_always_clears:
  "fst (logout e net st) = Inr ()
   \<and> cookieStore (snd (logout e net st))
       = (cookieStore st)(''access_token'' \<mapsto> deleted_cookie,
                          ''refresh_token'' \<mapsto> deleted_cookie)
   \<and> getAuthToken (cookieStore (snd (logout e net st))) = Some []
   \<and> getRefreshToken (cookieStore (snd (logout e net st))) = Some []
   \<and> \<not> truthy (getAuthToken (cookieStore (snd (logout e net st))))
   \<and> \<not> truthy (getRefreshToken (cookieStore (snd (logout e net st))))
   \<and> getAuthHeaders (cookieStore (snd (logout e net st)))
       = [(''Content-Type'', ''application/json'')]
   \<and> (\<forall>rt. getRefreshToken (cookieStore st) = Some rt \<and> rt \<noteq> [] \<longrightarrow>
         sent (snd (logout e net st))
           = sent st @ [(template (NEXT_PUBLIC_API_URL e) @ ''/api/auth/logout'',
                         \<lparr>method = Some ''POST'', body = None,
                          headers = [(''Content-Type'', ''application/json''),
                                     (''Cookie'', ''refresh_token='' @ rt)]\<rparr>)]
         \<and> (\<forall>err. net (sent st)
                      (template (NEXT_PUBLIC_API_URL e) @ ''/api/auth/logout'',
                       \<lparr>method = Some ''POST'', body = None,
                        headers = [(''Content-Type'', ''application/json''),
                                   (''Cookie'', ''refresh_token='' @ rt)]\<rparr>) = Inl err \<longrightarrow>
               console (snd (logout e net st))
                 = console st @ [(''Logout request failed:'', err)])
         \<and> (\<forall>r. net (sent st)
                    (template (NEXT_PUBLIC_API_URL e) @ ''/api/auth/logout'',
                     \<lparr>method = Some ''POST'', body = None,
                      headers = [(''Content-Type'', ''application/json''),
                                 (''Cookie'', ''refresh_token='' @ rt)]\<rparr>) = Inr r \<longrightarrow>
               console (snd (logout e net st)) = console st))
   \<and> (\<not> truthy (getRefreshToken (cookieStore st)) \<longrightarrow>
         sent (snd (logout e net st)) = sent st
         \<and> console (snd (logout e net st)) = console st)"
proof -
  have jar: "cookieStore (snd (logout e net st)) = clearAuthCookies (cookieStore st)"
    by (simp add: logout_def fetch_def Let_def split: sum.splits prod.splits)
  have returns: "fst (logout e net st) = Inr ()"
    by (simp add: logout_def Let_def)
  have call: "sent (snd (logout e net st))
           = sent st @ [(template (NEXT_PUBLIC_API_URL e) @ ''/api/auth/logout'',
                         \<lparr>method = Some ''POST'', body = None,
                          headers = [(''Content-Type'', ''application/json''),
                                     (''Cookie'', ''refresh_token='' @ rt)]\<rparr>)]"
    if "getRefreshToken (cookieStore st) = Some rt" "rt \<noteq> []" for rt
    using that
    by (simp add: logout_def logout_request_def fetch_def Let_def split: sum.splits prod.splits)
  have logged: "console (snd (logout e net st)) = console st @ [(''Logout request failed:'', err)]"
    if "getRefreshToken (cookieStore st) = Some rt" "rt \<noteq> []"
      and "net (sent st)
             (template (NEXT_PUBLIC_API_URL e) @ ''/api/auth/logout'',
              \<lparr>method = Some ''POST'', body = None,
               headers = [(''Content-Type'', ''application/json''),
                          (''Cookie'', ''refresh_token='' @ rt)]\<rparr>) = Inl err" for rt err
    using that
    by (simp add: logout_def logout_request_def fetch_def Let_def)
  have quiet: "console (snd (logout e net st)) = console st"
    if "getRefreshToken (cookieStore st) = Some rt" "rt \<noteq> []"
      and "net (sent st)
             (template (NEXT_PUBLIC_API_URL e) @ ''/api/auth/logout'',
              \<lparr>method = Some ''POST'', body = None,
               headers = [(''Content-Type'', ''application/json''),
                          (''Cookie'', ''refresh_token='' @ rt)]\<rparr>) = Inr r" for rt r
    using that
    by (simp add: logout_def logout_request_def fetch_def Let_def)
  have no_call: "sent (snd (logout e net st)) = sent st
                 \<and> console (snd (logout e net st)) = console st"
    if "\<not> truthy (getRefreshToken (cookieStore st))"
    using that by (simp add: logout_def Let_def)
  have entries: "cookieStore (snd (logout e net st))
       = (cookieStore st)(''access_token'' \<mapsto> deleted_cookie,
                          ''refresh_token'' \<mapsto> deleted_cookie)"
    unfolding jar by (rule clearAuthCookies_entries)
  have readers: "getAuthToken (cookieStore (snd (logout e net st))) = Some []"
    "getRefreshToken (cookieStore (snd (logout e net st))) = Some []"
    "getAuthHeaders (cookieStore (snd (logout e net st)))
       = [(''Content-Type'', ''application/json'')]"
    unfolding jar
    by (simp_all add: getAuthToken_clear getRefreshToken_clear getAuthHeaders_clear)
  then have falsy: "\<not> truthy (getAuthToken (cookieStore (snd (logout e net st))))"
    "\<not> truthy (getRefreshToken (cookieStore (snd (logout e net st))))"
    by simp_all
  from returns entries readers falsy call logged quiet no_call show ?thesis
    by blast
qed

theorem logout_always_clears_witness:
  "getRefreshToken (cookieStore (example_state example_store)) = Some ''BBB''
   \<and> scripted [] (sent (example_state example_store))
        (''https://api.example/api/auth/logout'',
         \<lparr>method = Some ''POST'', body = None,
          headers = [(''Content-Type'', ''application/json''),
                     (''Cookie'', ''refresh_token=BBB'')]\<rparr>)
       = Inl (TypeError ''fetch failed'')
   \<and> fst (logout example_env (scripted []) (example_state example_store)) = Inr ()
   \<and> getAuthToken (cookieStore (snd (logout example_env (scripted [])
         (example_state example_store)))) = Some []
   \<and> getRefreshToken (cookieStore (snd (logout example_env (scripted [])
         (example_state example_store)))) = Some []
   \<and> getAuthHeaders (cookieStore (snd (logout example_env (scripted [])
         (example_state example_store)))) = [(''Content-Type'', ''application/json'')]
   \<and> sent (snd (logout example_env (scripted []) (example_state example_store)))
       = [(''https://api.example/api/auth/logout'',
           \<lparr>method = Some ''POST'', body = None,
            headers = [(''Content-Type'', ''application/json''),
                       (''Cookie'', ''refresh_token=BBB'')]\<rparr>)]
   \<and> console (snd (logout example_env (scripted []) (example_state example_store)))
       = [(''Logout request failed:'', TypeError ''fetch failed'')]"
proof -
  let ?run = "logout example_env (scripted []) (example_state example_store)"
  let ?call = "(template (NEXT_PUBLIC_API_URL example_env) @ ''/api/auth/logout'',
         \<lparr>method = Some ''POST'', body = None,
          headers = [(''Content-Type'', ''application/json''),
                     (''Cookie'', ''refresh_token='' @ ''BBB'')]\<rparr>)"
  have tok: "getRefreshToken (cookieStore (example_state example_store)) = Some ''BBB''"
    by (simp add: example_state_def example_store_def getRefreshToken_def cookieStore_get_def)
  have down: "scripted [] (sent (example_state example_store)) ?call
                = Inl (TypeError ''fetch failed'')"
    by (simp add: scripted_def)
  note all = logout_always_clears [of example_env "scripted []" "example_state example_store"]
  from all tok down
  have "sent (snd ?run) = sent (example_state example_store) @ [?call]"
    and "console (snd ?run)
          = console (example_state example_store)
              @ [(''Logout request failed:'', TypeError ''fetch failed'')]"
    by simp_all
  moreover from all have "fst ?run = Inr ()"
    and "getAuthToken (cookieStore (snd ?run)) = Some []"
    and "getRefreshToken (cookieStore (snd ?run)) = Some []"
    and "getAuthHeaders (cookieStore (snd ?run)) = [(''Content-Type'', ''application/json'')]"
    by blast+
  ultimately show ?thesis
    using tok down by (simp add: example_state_def example_env_def)
qed

section \<open>Reading the directives of a response\<close>

text \<open>
  Claim C5. \<^verbatim>\<open>extractAndSetCookies\<close> scans every directive of the sequence, not only the
  first. Let \<open>ha\<close> be an access directive (it carries an \<^verbatim>\<open>access_token=\<close> assignment and
  no \<^verbatim>\<open>refresh_token=\<close> one) and \<open>hr\<close> a refresh directive. Given the two, in either
  order, the jar afterwards holds the access value with max-age 900 and the refresh value
  with max-age 604800; given one of them alone, only the cookie of that kind is written and
  every other cookie is untouched. In a sequence of any length, a directive at any position
  is read: the last access (refresh) directive of the sequence is the one stored.
\<close>

theorem extractAndSetCookies_scans_every_directive:
  assumes "match_token ''access_token='' ha = Some va"
      and "match_token ''refresh_token='' ha = None"
      and "match_token ''refresh_token='' hr = Some vr"
      and "match_token ''access_token='' hr = None"
  shows "extractAndSetCookies e [ha, hr] cs
           = cs(''access_token'' \<mapsto> stored_cookie e va 900,
                ''refresh_token'' \<mapsto> stored_cookie e vr 604800)
       \<and> extractAndSetCookies e [hr, ha] cs
           = cs(''access_token'' \<mapsto> stored_cookie e va 900,
                ''refresh_token'' \<mapsto> stored_cookie e vr 604800)
       \<and> extractAndSetCookies e [ha] cs = cs(''access_token'' \<mapsto> stored_cookie e va 900)
       \<and> extractAndSetCookies e [hr] cs = cs(''refresh_token'' \<mapsto> stored_cookie e vr 604800)
       \<and> (\<forall>pre post. (\<forall>h\<in>set post. match_token ''access_token='' h = None) \<longrightarrow>
             cookieStore_get ''access_token'' (extractAndSetCookies e (pre @ ha # post) cs)
               = Some (stored_cookie e va 900))
       \<and> (\<forall>pre post. (\<forall>h\<in>set post. match_token ''refresh_token='' h = None) \<longrightarrow>
             cookieStore_get ''refresh_token'' (extractAndSetCookies e (pre @ hr # post) cs)
               = Some (stored_cookie e vr 604800))"
proof -
  have ne: "''access_token'' \<noteq> ''refresh_token''" by simp
  have 1: "extractAndSetCookie e ha c = c(''access_token'' \<mapsto> stored_cookie e va 900)" for c
    using assms(1,2)
    by (simp add: extractAndSetCookie_def cookieStore_set_def Let_def stored_cookie_def)
  have 2: "extractAndSetCookie e hr c = c(''refresh_token'' \<mapsto> stored_cookie e vr 604800)" for c
    using assms(3,4)
    by (simp add: extractAndSetCookie_def cookieStore_set_def Let_def stored_cookie_def)
  have both: "extractAndSetCookies e [ha, hr] cs
           = cs(''access_token'' \<mapsto> stored_cookie e va 900,
                ''refresh_token'' \<mapsto> stored_cookie e vr 604800)"
    by (simp add: 1 2)
  have swapped: "extractAndSetCookies e [hr, ha] cs
           = cs(''access_token'' \<mapsto> stored_cookie e va 900,
                ''refresh_token'' \<mapsto> stored_cookie e vr 604800)"
    using ne by (simp add: 1 2 fun_upd_twist)
  have only_a: "extractAndSetCookies e [ha] cs = cs(''access_token'' \<mapsto> stored_cookie e va 900)"
    by (simp add: 1)
  have only_r: "extractAndSetCookies e [hr] cs
                  = cs(''refresh_token'' \<mapsto> stored_cookie e vr 604800)"
    by (simp add: 2)
  have any_a: "\<forall>pre post. (\<forall>h\<in>set post. match_token ''access_token='' h = None) \<longrightarrow>
             cookieStore_get ''access_token'' (extractAndSetCookies e (pre @ ha # post) cs)
               = Some (stored_cookie e va 900)"
    using extractAndSetCookies_access_last [OF assms(1)]
    by (simp add: cookieStore_get_def)
  have any_r: "\<forall>pre post. (\<forall>h\<in>set post. match_token ''refresh_token='' h = None) \<longrightarrow>
             cookieStore_get ''refresh_token'' (extractAndSetCookies e (pre @ hr # post) cs)
               = Some (stored_cookie e vr 604800)"
    using extractAndSetCookies_refresh_last [OF assms(3)]
    by (simp add: cookieStore_get_def)
  from both swapped only_a only_r any_a any_r show ?thesis by blast
qed

theorem extractAndSetCookies_scans_every_directive_witness:
  "match_token ''access_token='' ''access_token=AAA; Path=/; HttpOnly'' = Some ''AAA''
   \<and> match_token ''refresh_token='' ''access_token=AAA; Path=/; HttpOnly'' = None
   \<and> match_token ''refresh_token='' ''refresh_token=BBB; Path=/; HttpOnly'' = Some ''BBB''
   \<and> match_token ''access_token='' ''refresh_token=BBB; Path=/; HttpOnly'' = None
   \<and> extractAndSetCookies example_env
        [''access_token=AAA; Path=/; HttpOnly'', ''refresh_token=BBB; Path=/; HttpOnly'']
        Map.empty
      = [''access_token'' \<mapsto> stored_cookie example_env ''AAA'' 900,
         ''refresh_token'' \<mapsto> stored_cookie example_env ''BBB'' 604800]
   \<and> getAuthToken (extractAndSetCookies example_env
        [''access_token=AAA; Path=/; HttpOnly'', ''refresh_token=BBB; Path=/; HttpOnly'']
        Map.empty) = Some ''AAA''
   \<and> getRefreshToken (extractAndSetCookies example_env
        [''access_token=AAA; Path=/; HttpOnly'', ''refresh_token=BBB; Path=/; HttpOnly'']
        Map.empty) = Some ''BBB''
   \<and> extractAndSetCookies example_env [''refresh_token=BBB; Path=/; HttpOnly''] example_store
      = example_store(''refresh_token'' \<mapsto> stored_cookie example_env ''BBB'' 604800)"
proof -
  have a: "match_token ''access_token='' ''access_token=AAA; Path=/; HttpOnly'' = Some ''AAA''"
    by simp
  have an: "match_token ''refresh_token='' ''access_token=AAA; Path=/; HttpOnly'' = None"
    by simp
  have r: "match_token ''refresh_token='' ''refresh_token=BBB; Path=/; HttpOnly'' = Some ''BBB''"
    by simp
  have rn: "match_token ''access_token='' ''refresh_token=BBB; Path=/; HttpOnly'' = None"
    by simp
  note inst = extractAndSetCookies_scans_every_directive [OF a an r rn]
  have two: "extractAndSetCookies example_env
        [''access_token=AAA; Path=/; HttpOnly'', ''refresh_token=BBB; Path=/; HttpOnly'']
        Map.empty
      = [''access_token'' \<mapsto> stored_cookie example_env ''AAA'' 900,
         ''refresh_token'' \<mapsto> stored_cookie example_env ''BBB'' 604800]"
    using inst [of example_env Map.empty] by blast
  have one: "extractAndSetCookies example_env [''refresh_token=BBB; Path=/; HttpOnly'']
        example_store
      = example_store(''refresh_token'' \<mapsto> stored_cookie example_env ''BBB'' 604800)"
    using inst [of example_env example_store] by blast
  have reads: "getAuthToken [''access_token'' \<mapsto> stored_cookie example_env ''AAA'' 900,
         ''refresh_token'' \<mapsto> stored_cookie example_env ''BBB'' 604800] = Some ''AAA''"
    "getRefreshToken [''access_token'' \<mapsto> stored_cookie example_env ''AAA'' 900,
         ''refresh_token'' \<mapsto> stored_cookie example_env ''BBB'' 604800] = Some ''BBB''"
    by (simp_all add: getAuthToken_def getRefreshToken_def cookieStore_get_def stored_cookie_def)
  from a an r rn one reads show ?thesis
    unfolding two by blast
qed

section \<open>Building the credential header\<close>

text \<open>
  Claim C8. For every cookie jar, \<^verbatim>\<open>getAuthHeaders\<close> returns a header record with a
  \<^verbatim>\<open>Content-Type\<close> entry and, when at least one token is present, exactly one \<^verbatim>\<open>Cookie\<close>
  entry that lists the tokens present, the access token first when both are. When neither
  is present the record has the \<^verbatim>\<open>Content-Type\<close> entry only. The function is total: it
  raises nothing. A token is present when the jar holds a non-empty value for it, which
  is what the source tests (\<^verbatim>\<open>if (accessToken)\<close>).
\<close>

theorem getAuthHeaders_shape:
  "map_of (getAuthHeaders cs) ''Content-Type'' = Some ''application/json''
   \<and> (\<forall>a r. getAuthToken cs = Some a \<and> a \<noteq> [] \<and> getRefreshToken cs = Some r \<and> r \<noteq> [] \<longrightarrow>
        getAuthHeaders cs = [(''Content-Type'', ''application/json''),
                             (''Cookie'', ''access_token='' @ a @ ''; refresh_token='' @ r)])
   \<and> (\<forall>a. getAuthToken cs = Some a \<and> a \<noteq> [] \<and> \<not> truthy (getRefreshToken cs) \<longrightarrow>
        getAuthHeaders cs = [(''Content-Type'', ''application/json''),
                             (''Cookie'', ''access_token='' @ a)])
   \<and> (\<forall>r. \<not> truthy (getAuthToken cs) \<and> getRefreshToken cs = Some r \<and> r \<noteq> [] \<longrightarrow>
        getAuthHeaders cs = [(''Content-Type'', ''application/json''),
                             (''Cookie'', ''refresh_token='' @ r)])
   \<and> (\<not> truthy (getAuthToken cs) \<and> \<not> truthy (getRefreshToken cs) \<longrightarrow>
        getAuthHeaders cs = [(''Content-Type'', ''application/json'')])"
proof -
  have content_type: "map_of (getAuthHeaders cs) ''Content-Type'' = Some ''application/json''"
    by (simp add: getAuthHeaders_def spread_def Let_def)
  have both: "getAuthHeaders cs = [(''Content-Type'', ''application/json''),
                (''Cookie'', ''access_token='' @ a @ ''; refresh_token='' @ r)]"
    if "getAuthToken cs = Some a" "a \<noteq> []" "getRefreshToken cs = Some r" "r \<noteq> []" for a r
    using that by (simp add: getAuthHeaders_def spread_def)
  have access_only: "getAuthHeaders cs = [(''Content-Type'', ''application/json''),
                (''Cookie'', ''access_token='' @ a)]"
    if "getAuthToken cs = Some a" "a \<noteq> []" "\<not> truthy (getRefreshToken cs)" for a
    using that by (simp add: getAuthHeaders_def spread_def)
  have refresh_only: "getAuthHeaders cs = [(''Content-Type'', ''application/json''),
                (''Cookie'', ''refresh_token='' @ r)]"
    if "\<not> truthy (getAuthToken cs)" "getRefreshToken cs = Some r" "r \<noteq> []" for r
    using that by (simp add: getAuthHeaders_def spread_def)
  have neither: "getAuthHeaders cs = [(''Content-Type'', ''application/json'')]"
    if "\<not> truthy (getAuthToken cs)" "\<not> truthy (getRefreshToken cs)"
    using that by (simp add: getAuthHeaders_def spread_def)
  from content_type both access_only refresh_only neither show ?thesis by blast
qed

theorem getAuthHeaders_shape_witness:
  "getAuthToken example_store = Some ''AAA'' \<and> getRefreshToken example_store = Some ''BBB''
   \<and> getAuthHeaders example_store
       = [(''Content-Type'', ''application/json''),
          (''Cookie'', ''access_token=AAA; refresh_token=BBB'')]
   \<and> \<not> truthy (getAuthToken Map.empty) \<and> \<not> truthy (getRefreshToken Map.empty)
   \<and> getAuthHeaders Map.empty = [(''Content-Type'', ''application/json'')]"
proof -
  have a: "getAuthToken example_store = Some ''AAA''"
    by (simp add: getAuthToken_def cookieStore_get_def example_store_def)
  have r: "getRefreshToken example_store = Some ''BBB''"
    by (simp add: getRefreshToken_def cookieStore_get_def example_store_def)
  have n: "\<not> truthy (getAuthToken Map.empty)" "\<not> truthy (getRefreshToken Map.empty)"
    by (simp_all add: getAuthToken_def getRefreshToken_def cookieStore_get_def)
  have both: "getAuthHeaders example_store
       = [(''Content-Type'', ''application/json''),
          (''Cookie'', ''access_token=AAA; refresh_token=BBB'')]"
    using getAuthHeaders_shape [of example_store] a r by simp
  have none: "getAuthHeaders Map.empty = [(''Content-Type'', ''application/json'')]"
    using getAuthHeaders_shape [of Map.empty] n by blast
  from a r n both none show ?thesis by blast
qed

section \<open>The 401 branch with a refresh token\<close>

lemma fetchWithAuth_renewing:
  assumes "net (sent st) (auth_request u options (cookieStore st)) = Inr resp"
      and "status resp = 401"
      and "\<not> truthy_flag (skipRefresh options)"
      and "getRefreshToken (cookieStore st) = Some rt"
      and "rt \<noteq> []"
  shows "fetchWithAuth e net u options st =
           (case refresh_and_retry e net u options rt
                   (st\<lparr>sent := sent st @ [auth_request u options (cookieStore st)]\<rparr>) of
              (Inl err, st2) \<Rightarrow>
                (Inl err, st2\<lparr>cookieStore := clearAuthCookies (cookieStore st2)\<rparr>)
            | (Inr retryResponse, st2) \<Rightarrow> (Inr retryResponse, st2))"
  using assms by (simp add: fetchWithAuth_def fetch_def)

lemma fetchWithAuth_after_rejected_renewal:
  assumes "net (sent st) (auth_request u options (cookieStore st)) = Inr resp"
      and "status resp = 401"
      and "\<not> truthy_flag (skipRefresh options)"
      and "getRefreshToken (cookieStore st) = Some rt"
      and "rt \<noteq> []"
      and "net (sent st @ [auth_request u options (cookieStore st)]) (refresh_request e rt) = out"
      and "\<forall>rr. out = Inr rr \<longrightarrow> \<not> ok rr"
  shows "fetchWithAuth e net u options st =
           (Inl (case out of Inl err \<Rightarrow> err
                 | Inr rr \<Rightarrow> Error ''Session expired. Please login again.''),
            st\<lparr>cookieStore := clearAuthCookies (cookieStore st),
               sent := sent st @ [auth_request u options (cookieStore st),
                                  refresh_request e rt]\<rparr>)"
proof -
  let ?st1 = "st\<lparr>sent := sent st @ [auth_request u options (cookieStore st)]\<rparr>"
  have "refresh_and_retry e net u options rt ?st1 =
           (Inl (case out of Inl err \<Rightarrow> err
                 | Inr rr \<Rightarrow> Error ''Session expired. Please login again.''),
            ?st1\<lparr>cookieStore := (case out of Inl err \<Rightarrow> cookieStore ?st1
                                   | Inr rr \<Rightarrow> clearAuthCookies (cookieStore ?st1)),
                 sent := sent ?st1 @ [refresh_request e rt]\<rparr>)"
    by (rule refresh_and_retry_rejected) (use assms(6,7) in simp_all)
  moreover have "fetchWithAuth e net u options st =
           (case refresh_and_retry e net u options rt ?st1 of
              (Inl err, st2) \<Rightarrow>
                (Inl err, st2\<lparr>cookieStore := clearAuthCookies (cookieStore st2)\<rparr>)
            | (Inr retryResponse, st2) \<Rightarrow> (Inr retryResponse, st2))"
    using assms(1-5) by (rule fetchWithAuth_renewing)
  ultimately show ?thesis
    by (cases out) (simp_all add: clearAuthCookies_idem)
qed

lemma fetchWithAuth_after_accepted_renewal:
  assumes "net (sent st) (auth_request u options (cookieStore st)) = Inr resp"
      and "status resp = 401"
      and "\<not> truthy_flag (skipRefresh options)"
      and "getRefreshToken (cookieStore st) = Some rt"
      and "rt \<noteq> []"
      and "net (sent st @ [auth_request u options (cookieStore st)]) (refresh_request e rt)
             = Inr rr"
      and "ok rr"
      and "net (sent st @ [auth_request u options (cookieStore st), refresh_request e rt])
             (auth_request u options (extractAndSetCookies e (getSetCookie rr) (cookieStore st)))
           = Inr retry"
  shows "fetchWithAuth e net u options st =
           (Inr retry,
            st\<lparr>cookieStore := extractAndSetCookies e (getSetCookie rr) (cookieStore st),
               sent := sent st @ [auth_request u options (cookieStore st), refresh_request e rt,
                 auth_request u options
                   (extractAndSetCookies e (getSetCookie rr) (cookieStore st))]\<rparr>)"
proof -
  let ?st1 = "st\<lparr>sent := sent st @ [auth_request u options (cookieStore st)]\<rparr>"
  let ?cs' = "extractAndSetCookies e (getSetCookie rr) (cookieStore st)"
  have "refresh_and_retry e net u options rt ?st1 =
           (net (sent ?st1 @ [refresh_request e rt]) (auth_request u options ?cs'),
            ?st1\<lparr>cookieStore := ?cs',
               sent := sent ?st1 @ [refresh_request e rt, auth_request u options ?cs']\<rparr>)"
    using refresh_and_retry_accepted [of net ?st1 e rt rr u options] assms(6,7) by simp
  moreover have "fetchWithAuth e net u options st =
           (case refresh_and_retry e net u options rt ?st1 of
              (Inl err, st2) \<Rightarrow>
                (Inl err, st2\<lparr>cookieStore := clearAuthCookies (cookieStore st2)\<rparr>)
            | (Inr retryResponse, st2) \<Rightarrow> (Inr retryResponse, st2))"
    using assms(1-5) by (rule fetchWithAuth_renewing)
  ultimately show ?thesis
    using assms(8) by simp
qed

text \<open>
  Claim C2, as stated, fails when the renewal call faults: the \<^verbatim>\<open>catch\<close> block clears the
  jar and rethrows the error of \<^verbatim>\<open>fetch\<close> itself, whose message is not
  \<^verbatim>\<open>Session expired. Please login again.\<close>
\<close>

theorem fetchWithAuth_renewal_fault_counterexample:
  "fst (fetchWithAuth example_env
          (scripted [Inr (example_response 401 []), Inl (TypeError ''fetch failed'')])
          ''/api/user/stats'' (example_options [] None) (example_state example_store))
     = Inl (TypeError ''fetch failed'')
   \<and> fst (fetchWithAuth example_env
          (scripted [Inr (example_response 401 []), Inl (TypeError ''fetch failed'')])
          ''/api/user/stats'' (example_options [] None) (example_state example_store))
     \<noteq> Inl (Error ''Session expired. Please login again.'')"
proof -
  have "fetchWithAuth example_env
          (scripted [Inr (example_response 401 []), Inl (TypeError ''fetch failed'')])
          ''/api/user/stats'' (example_options [] None) (example_state example_store)
        = (Inl (case (Inl (TypeError ''fetch failed'') :: js_error + response) of
                  Inl err \<Rightarrow> err
                | Inr rr \<Rightarrow> Error ''Session expired. Please login again.''),
           (example_state example_store)
             \<lparr>cookieStore := clearAuthCookies (cookieStore (example_state example_store)),
              sent := sent (example_state example_store)
                @ [auth_request ''/api/user/stats'' (example_options [] None)
                     (cookieStore (example_state example_store)),
                   refresh_request example_env ''BBB'']\<rparr>)"
    by (rule fetchWithAuth_after_rejected_renewal [where resp = "example_response 401 []"])
       (simp_all add: scripted_def example_state_def example_response_def example_options_def
          example_store_def getRefreshToken_def cookieStore_get_def)
  then show ?thesis by simp
qed

text \<open>
  Claim C2, amended. When the renewal call returns a non-success status, the call fails
  with the error \<^verbatim>\<open>Session expired. Please login again.\<close>; when the renewal call faults,
  the call fails with that fault's own error. In both cases both tokens are deleted from
  the jar afterwards (each cookie is the empty, expired entry the jar's \<^verbatim>\<open>delete\<close> leaves:
  both readers give the empty string, which the source treats as no token, and the
  headers built from the jar carry no \<^verbatim>\<open>Cookie\<close> entry), and no retry is issued: the calls
  issued are the first one and the renewal call.
\<close>

theorem fetchWithAuth_renewal_failure:
  assumes "net (sent st) (auth_request u options (cookieStore st)) = Inr resp"
      and "status resp = 401"
      and "\<not> truthy_flag (skipRefresh options)"
      and "getRefreshToken (cookieStore st) = Some rt"
      and "rt \<noteq> []"
      and "net (sent st @ [auth_request u options (cookieStore st)]) (refresh_request e rt) = out"
      and "\<forall>rr. out = Inr rr \<longrightarrow> \<not> ok rr"
  shows "fetchWithAuth e net u options st =
           (Inl (case out of Inl err \<Rightarrow> err
                 | Inr rr \<Rightarrow> Error ''Session expired. Please login again.''),
            st\<lparr>cookieStore := (cookieStore st)(''access_token'' \<mapsto> deleted_cookie,
                                                ''refresh_token'' \<mapsto> deleted_cookie),
               sent := sent st @ [auth_request u options (cookieStore st),
                                  refresh_request e rt]\<rparr>)
         \<and> getAuthToken (cookieStore (snd (fetchWithAuth e net u options st))) = Some []
         \<and> getRefreshToken (cookieStore (snd (fetchWithAuth e net u options st))) = Some []
         \<and> \<not> truthy (getAuthToken (cookieStore (snd (fetchWithAuth e net u options st))))
         \<and> \<not> truthy (getRefreshToken (cookieStore (snd (fetchWithAuth e net u options st))))
         \<and> getAuthHeaders (cookieStore (snd (fetchWithAuth e net u options st)))
             = [(''Content-Type'', ''application/json'')]"
proof -
  have run: "fetchWithAuth e net u options st =
           (Inl (case out of Inl err \<Rightarrow> err
                 | Inr rr \<Rightarrow> Error ''Session expired. Please login again.''),
            st\<lparr>cookieStore := clearAuthCookies (cookieStore st),
               sent := sent st @ [auth_request u options (cookieStore st),
                                  refresh_request e rt]\<rparr>)"
    using assms by (rule fetchWithAuth_after_rejected_renewal)
  have "getAuthToken (clearAuthCookies (cookieStore st)) = Some []"
    and "getRefreshToken (clearAuthCookies (cookieStore st)) = Some []"
    and "getAuthHeaders (clearAuthCookies (cookieStore st))
           = [(''Content-Type'', ''application/json'')]"
    by (simp_all add: getAuthToken_clear getRefreshToken_clear getAuthHeaders_clear)
  then show ?thesis
    unfolding run by (simp add: clearAuthCookies_entries)
qed

theorem fetchWithAuth_renewal_failure_witness:
  "getRefreshToken (cookieStore (example_state example_store)) = Some ''BBB''
   \<and> \<not> ok (example_response 403 [])
   \<and> fetchWithAuth example_env
       (scripted [Inr (example_response 401 []), Inr (example_response 403 [])])
       ''/api/user/stats'' (example_options [] None) (example_state example_store)
     = (Inl (Error ''Session expired. Please login again.''),
        (example_state example_store)
          \<lparr>cookieStore := example_store(''access_token'' \<mapsto> deleted_cookie,
                                        ''refresh_token'' \<mapsto> deleted_cookie),
           sent := [auth_request ''/api/user/stats'' (example_options [] None) example_store,
                    refresh_request example_env ''BBB'']\<rparr>)
   \<and> getAuthToken (cookieStore (snd (fetchWithAuth example_env
       (scripted [Inr (example_response 401 []), Inr (example_response 403 [])])
       ''/api/user/stats'' (example_options [] None) (example_state example_store)))) = Some []
   \<and> getRefreshToken (cookieStore (snd (fetchWithAuth example_env
       (scripted [Inr (example_response 401 []), Inr (example_response 403 [])])
       ''/api/user/stats'' (example_options [] None) (example_state example_store)))) = Some []
   \<and> getAuthHeaders (cookieStore (snd (fetchWithAuth example_env
       (scripted [Inr (example_response 401 []), Inr (example_response 403 [])])
       ''/api/user/stats'' (example_options [] None) (example_state example_store))))
     = [(''Content-Type'', ''application/json'')]"
proof -
  let ?run = "fetchWithAuth example_env
       (scripted [Inr (example_response 401 []), Inr (example_response 403 [])])
       ''/api/user/stats'' (example_options [] None) (example_state example_store)"
  have tok: "getRefreshToken (cookieStore (example_state example_store)) = Some ''BBB''"
    by (simp add: example_state_def example_store_def getRefreshToken_def cookieStore_get_def)
  have rej: "\<not> ok (example_response 403 [])"
    by (simp add: ok_def example_response_def)
  have inst: "?run
     = (Inl (case (Inr (example_response 403 []) :: js_error + response) of
               Inl err \<Rightarrow> err
             | Inr rr \<Rightarrow> Error ''Session expired. Please login again.''),
        (example_state example_store)
          \<lparr>cookieStore := (cookieStore (example_state example_store))
                             (''access_token'' \<mapsto> deleted_cookie,
                              ''refresh_token'' \<mapsto> deleted_cookie),
           sent := sent (example_state example_store)
             @ [auth_request ''/api/user/stats'' (example_options [] None)
                  (cookieStore (example_state example_store)),
                refresh_request example_env ''BBB'']\<rparr>)
     \<and> getAuthToken (cookieStore (snd ?run)) = Some []
     \<and> getRefreshToken (cookieStore (snd ?run)) = Some []
     \<and> \<not> truthy (getAuthToken (cookieStore (snd ?run)))
     \<and> \<not> truthy (getRefreshToken (cookieStore (snd ?run)))
     \<and> getAuthHeaders (cookieStore (snd ?run)) = [(''Content-Type'', ''application/json'')]"
    by (rule fetchWithAuth_renewal_failure [where resp = "example_response 401 []"])
       (simp_all add: scripted_def example_response_def example_options_def
          example_state_def example_store_def getRefreshToken_def cookieStore_get_def ok_def)
  then have run: "?run
     = (Inl (Error ''Session expired. Please login again.''),
        (example_state example_store)
          \<lparr>cookieStore := example_store(''access_token'' \<mapsto> deleted_cookie,
                                        ''refresh_token'' \<mapsto> deleted_cookie),
           sent := [auth_request ''/api/user/stats'' (example_options [] None) example_store,
                    refresh_request example_env ''BBB'']\<rparr>)"
    by (simp add: example_state_def)
  from inst have "getAuthToken (cookieStore (snd ?run)) = Some []"
    and "getRefreshToken (cookieStore (snd ?run)) = Some []"
    and "getAuthHeaders (cookieStore (snd ?run)) = [(''Content-Type'', ''application/json'')]"
    by blast+
  with tok rej run show ?thesis by blast
qed

section \<open>What a failure leaves in the cookie jar\<close>

text \<open>
  Claim C3, as stated, fails for the missing refresh token: that error is thrown before
  the \<^verbatim>\<open>try\<close> block, so the jar is not cleared and the access token is still stored
  when the error reaches the caller.
\<close>

theorem fetchWithAuth_no_refresh_keeps_access_counterexample:
  "fst (fetchWithAuth example_env (scripted [Inr (example_response 401 [])])
          ''/api/user/stats'' (example_options [] None) (example_state access_only_store))
     = Inl (Error ''Unauthorized: No refresh token available'')
   \<and> getAuthToken (cookieStore (snd (fetchWithAuth example_env
          (scripted [Inr (example_response 401 [])])
          ''/api/user/stats'' (example_options [] None) (example_state access_only_store))))
     = Some ''AAA''"
  by (simp add: fetchWithAuth_def fetch_def scripted_def example_state_def
      example_response_def example_options_def access_only_store_def getRefreshToken_def
      getAuthToken_def cookieStore_get_def)

text \<open>
  Claim C3, amended. Of the failures raised after a 401 with renewal enabled, every one
  raised once a refresh token was found (the rejected renewal, and whatever the \<^verbatim>\<open>try\<close>
  block rethrows) reaches the caller with both tokens deleted from the jar: each of the
  two cookies is the empty, expired entry the jar's \<^verbatim>\<open>delete\<close> leaves, so both readers
  give the empty string, which the source treats as no token. The failure for a missing
  refresh token is \<^verbatim>\<open>Unauthorized: No refresh token available\<close> and leaves the jar as it
  was.
\<close>

theorem fetchWithAuth_failure_store:
  assumes "net (sent st) (auth_request u options (cookieStore st)) = Inr resp"
      and "status resp = 401"
      and "\<not> truthy_flag (skipRefresh options)"
      and "fetchWithAuth e net u options st = (Inl err, st')"
  shows "if truthy (getRefreshToken (cookieStore st))
         then cookieStore st' ''access_token'' = Some deleted_cookie
              \<and> cookieStore st' ''refresh_token'' = Some deleted_cookie
              \<and> getAuthToken (cookieStore st') = Some []
              \<and> getRefreshToken (cookieStore st') = Some []
              \<and> \<not> truthy (getAuthToken (cookieStore st'))
              \<and> \<not> truthy (getRefreshToken (cookieStore st'))
         else err = Error ''Unauthorized: No refresh token available''
              \<and> cookieStore st' = cookieStore st"
proof (cases "truthy (getRefreshToken (cookieStore st))")
  case True
  with assms have "\<exists>cs. cookieStore st' = clearAuthCookies cs"
    by (auto simp add: fetchWithAuth_def fetch_def Let_def
        split: if_splits prod.splits sum.splits)
  then obtain cs where jar: "cookieStore st' = clearAuthCookies cs" ..
  have entries: "cookieStore st' ''access_token'' = Some deleted_cookie"
    "cookieStore st' ''refresh_token'' = Some deleted_cookie"
    unfolding jar by (simp_all add: clearAuthCookies_entries)
  have readers: "getAuthToken (cookieStore st') = Some []"
    "getRefreshToken (cookieStore st') = Some []"
    unfolding jar by (simp_all add: getAuthToken_clear getRefreshToken_clear)
  from True entries readers show ?thesis by simp
next
  case False
  with assms show ?thesis
    by (auto simp add: fetchWithAuth_def fetch_def Let_def split: if_splits)
qed

theorem fetchWithAuth_failure_store_witness:
  "truthy (getRefreshToken (cookieStore (example_state example_store)))
   \<and> fst (fetchWithAuth example_env
       (scripted [Inr (example_response 401 []), Inr (example_response 403 [])])
       ''/api/user/stats'' (example_options [] None) (example_state example_store))
     = Inl (Error ''Session expired. Please login again.'')
   \<and> cookieStore (snd (fetchWithAuth example_env
       (scripted [Inr (example_response 401 []), Inr (example_response 403 [])])
       ''/api/user/stats'' (example_options [] None) (example_state example_store)))
       ''access_token'' = Some deleted_cookie
   \<and> cookieStore (snd (fetchWithAuth example_env
       (scripted [Inr (example_response 401 []), Inr (example_response 403 [])])
       ''/api/user/stats'' (example_options [] None) (example_state example_store)))
       ''refresh_token'' = Some deleted_cookie
   \<and> getAuthToken (cookieStore (snd (fetchWithAuth example_env
       (scripted [Inr (example_response 401 []), Inr (example_response 403 [])])
       ''/api/user/stats'' (example_options [] None) (example_state example_store)))) = Some []
   \<and> getRefreshToken (cookieStore (snd (fetchWithAuth example_env
       (scripted [Inr (example_response 401 []), Inr (example_response 403 [])])
       ''/api/user/stats'' (example_options [] None) (example_state example_store)))) = Some []"
proof -
  let ?run = "fetchWithAuth example_env
       (scripted [Inr (example_response 401 []), Inr (example_response 403 [])])
       ''/api/user/stats'' (example_options [] None) (example_state example_store)"
  have tok: "truthy (getRefreshToken (cookieStore (example_state example_store)))"
    by (simp add: example_state_def example_store_def getRefreshToken_def cookieStore_get_def)
  have "?run
     = (Inl (case (Inr (example_response 403 []) :: js_error + response) of
               Inl err \<Rightarrow> err
             | Inr rr \<Rightarrow> Error ''Session expired. Please login again.''),
        (example_state example_store)
          \<lparr>cookieStore := clearAuthCookies (cookieStore (example_state example_store)),
           sent := sent (example_state example_store)
             @ [auth_request ''/api/user/stats'' (example_options [] None)
                  (cookieStore (example_state example_store)),
                refresh_request example_env ''BBB'']\<rparr>)"
    by (rule fetchWithAuth_after_rejected_renewal [where resp = "example_response 401 []"])
       (simp_all add: scripted_def example_response_def example_options_def
          example_state_def example_store_def getRefreshToken_def cookieStore_get_def ok_def)
  then have failed: "fst ?run = Inl (Error ''Session expired. Please login again.'')"
    by simp
  then have run: "?run = (Inl (Error ''Session expired. Please login again.''), snd ?run)"
    by (simp add: prod_eq_iff)
  have "if truthy (getRefreshToken (cookieStore (example_state example_store)))
        then cookieStore (snd ?run) ''access_token'' = Some deleted_cookie
             \<and> cookieStore (snd ?run) ''refresh_token'' = Some deleted_cookie
             \<and> getAuthToken (cookieStore (snd ?run)) = Some []
             \<and> getRefreshToken (cookieStore (snd ?run)) = Some []
             \<and> \<not> truthy (getAuthToken (cookieStore (snd ?run)))
             \<and> \<not> truthy (getRefreshToken (cookieStore (snd ?run)))
        else Error ''Session expired. Please login again.''
               = Error ''Unauthorized: No refresh token available''
             \<and> cookieStore (snd ?run) = cookieStore (example_state example_store)"
    by (rule fetchWithAuth_failure_store [where resp = "example_response 401 []",
          OF _ _ _ run])
       (simp_all add: scripted_def example_response_def example_options_def example_state_def)
  with tok have "cookieStore (snd ?run) ''access_token'' = Some deleted_cookie"
    and "cookieStore (snd ?run) ''refresh_token'' = Some deleted_cookie"
    and "getAuthToken (cookieStore (snd ?run)) = Some []"
    and "getRefreshToken (cookieStore (snd ?run)) = Some []"
    by simp_all
  with tok failed show ?thesis by blast
qed

section \<open>A renewal that brings no directive\<close>

text \<open>
  Claim C10, as stated, fails when the caller passes a \<^verbatim>\<open>Cookie\<close> header of their own:
  the caller's headers are spread last, so the retry, like the first request, carries the
  caller's cookie and not the stored credentials \<^verbatim>\<open>AAA\<close> and \<^verbatim>\<open>BBB\<close>.
\<close>

theorem fetchWithAuth_empty_renewal_caller_cookie_counterexample:
  "fst (fetchWithAuth example_env
       (scripted [Inr (example_response 401 []), Inr (example_response 200 []),
                  Inr (example_response 200 [])])
       ''/api/user/stats'' (example_options [(''Cookie'', ''session=XYZ'')] None)
       (example_state example_store)) = Inr (example_response 200 [])
   \<and> getAuthToken (cookieStore (snd (fetchWithAuth example_env
       (scripted [Inr (example_response 401 []), Inr (example_response 200 []),
                  Inr (example_response 200 [])])
       ''/api/user/stats'' (example_options [(''Cookie'', ''session=XYZ'')] None)
       (example_state example_store)))) = Some ''AAA''
   \<and> getRefreshToken (cookieStore (snd (fetchWithAuth example_env
       (scripted [Inr (example_response 401 []), Inr (example_response 200 []),
                  Inr (example_response 200 [])])
       ''/api/user/stats'' (example_options [(''Cookie'', ''session=XYZ'')] None)
       (example_state example_store)))) = Some ''BBB''
   \<and> map_of (headers (snd (last (sent (snd (fetchWithAuth example_env
       (scripted [Inr (example_response 401 []), Inr (example_response 200 []),
                  Inr (example_response 200 [])])
       ''/api/user/stats'' (example_options [(''Cookie'', ''session=XYZ'')] None)
       (example_state example_store))))))) ''Cookie'' = Some ''session=XYZ''"
proof -
  let ?rr = "example_response 200 []"
  let ?net = "scripted [Inr (example_response 401 []), Inr ?rr, Inr (example_response 200 [])]"
  let ?opts = "example_options [(''Cookie'', ''session=XYZ'')] None"
  let ?st = "example_state example_store"
  let ?cs' = "extractAndSetCookies example_env (getSetCookie ?rr) (cookieStore ?st)"
  have run: "fetchWithAuth example_env ?net ''/api/user/stats'' ?opts ?st
     = (Inr (example_response 200 []),
        ?st\<lparr>cookieStore := ?cs',
            sent := sent ?st @ [auth_request ''/api/user/stats'' ?opts (cookieStore ?st),
                              refresh_request example_env ''BBB'',
                              auth_request ''/api/user/stats'' ?opts ?cs']\<rparr>)"
    by (rule fetchWithAuth_after_accepted_renewal [where resp = "example_response 401 []"])
       (simp_all add: scripted_def example_response_def example_options_def
          example_state_def example_store_def getRefreshToken_def cookieStore_get_def ok_def)
  have kept: "?cs' = example_store"
    by (simp add: example_response_def example_state_def)
  have stored: "getAuthToken example_store = Some ''AAA''"
    "getRefreshToken example_store = Some ''BBB''"
    by (simp_all add: getAuthToken_def getRefreshToken_def cookieStore_get_def example_store_def)
  have carried: "map_of (headers (snd (auth_request ''/api/user/stats'' ?opts example_store)))
                   ''Cookie'' = Some ''session=XYZ''"
    by (simp add: auth_request_def map_of_spread example_options_def)
  from stored carried show ?thesis
    unfolding run kept by simp
qed

text \<open>
  Claim C10, amended. When the first call yields a 401, renewal is enabled, a refresh
  token is present, and the renewal call returns a success status with no set-cookie
  directive at all, nothing is written to the jar and no error is raised: the original
  request (same URL, method and body) is issued once more, identical to the first one, and
  the response of that retry is the result. The calls issued are the first one, the
  renewal call and the retry, in that order. When the caller passes no \<^verbatim>\<open>Cookie\<close> header
  of their own, the retry's \<^verbatim>\<open>Cookie\<close> header lists the credentials stored before the call:
  the access token, when one is present, and the refresh token.
\<close>

theorem fetchWithAuth_empty_renewal:
  assumes "net (sent st) (auth_request u options (cookieStore st)) = Inr resp"
      and "status resp = 401"
      and "\<not> truthy_flag (skipRefresh options)"
      and "getRefreshToken (cookieStore st) = Some rt"
      and "rt \<noteq> []"
      and "net (sent st @ [auth_request u options (cookieStore st)]) (refresh_request e rt)
             = Inr rr"
      and "ok rr"
      and "getSetCookie rr = []"
      and "net (sent st @ [auth_request u options (cookieStore st), refresh_request e rt])
             (auth_request u options (cookieStore st)) = Inr retry"
  shows "fetchWithAuth e net u options st =
           (Inr retry,
            st\<lparr>sent := sent st @ [auth_request u options (cookieStore st), refresh_request e rt,
                                  auth_request u options (cookieStore st)]\<rparr>)
         \<and> cookieStore (snd (fetchWithAuth e net u options st)) = cookieStore st
         \<and> fst (last (sent (snd (fetchWithAuth e net u options st)))) = u
         \<and> method (snd (last (sent (snd (fetchWithAuth e net u options st))))) = method options
         \<and> body (snd (last (sent (snd (fetchWithAuth e net u options st))))) = body options
         \<and> (\<forall>a. getAuthToken (cookieStore st) = Some a \<and> a \<noteq> []
                 \<and> ''Cookie'' \<notin> fst ` set (headers options) \<longrightarrow>
               map_of (headers (snd (last (sent (snd (fetchWithAuth e net u options st))))))
                 ''Cookie'' = Some (''access_token='' @ a @ ''; refresh_token='' @ rt))
         \<and> (\<not> truthy (getAuthToken (cookieStore st))
               \<and> ''Cookie'' \<notin> fst ` set (headers options) \<longrightarrow>
               map_of (headers (snd (last (sent (snd (fetchWithAuth e net u options st))))))
                 ''Cookie'' = Some (''refresh_token='' @ rt))"
proof -
  let ?req = "auth_request u options (cookieStore st)"
  have run: "fetchWithAuth e net u options st =
           (Inr retry, st\<lparr>sent := sent st @ [?req, refresh_request e rt, ?req]\<rparr>)"
    using assms by (simp add: fetchWithAuth_def refresh_and_retry_def fetch_def)
  then have retried: "last (sent (snd (fetchWithAuth e net u options st))) = ?req"
    by simp
  have original: "fst ?req = u" "method (snd ?req) = method options"
    "body (snd ?req) = body options"
    by (simp_all add: auth_request_def requestInit.defs)
  have both: "map_of (headers (snd ?req)) ''Cookie''
                = Some (''access_token='' @ a @ ''; refresh_token='' @ rt)"
    if "getAuthToken (cookieStore st) = Some a" "a \<noteq> []"
      and caller: "''Cookie'' \<notin> fst ` set (headers options)" for a
  proof -
    have "getAuthHeaders (cookieStore st)
            = [(''Content-Type'', ''application/json''),
               (''Cookie'', ''access_token='' @ a @ ''; refresh_token='' @ rt)]"
      using that(1,2) assms(4,5) by (simp add: getAuthHeaders_def spread_def)
    with caller show ?thesis
      by (simp add: auth_request_def map_of_spread_absent)
  qed
  have refresh_only: "map_of (headers (snd ?req)) ''Cookie'' = Some (''refresh_token='' @ rt)"
    if "\<not> truthy (getAuthToken (cookieStore st))"
      and caller: "''Cookie'' \<notin> fst ` set (headers options)"
  proof -
    have "getAuthHeaders (cookieStore st)
            = [(''Content-Type'', ''application/json''), (''Cookie'', ''refresh_token='' @ rt)]"
      using that(1) assms(4,5) by (simp add: getAuthHeaders_def spread_def)
    with caller show ?thesis
      by (simp add: auth_request_def map_of_spread_absent)
  qed
  have jar: "cookieStore (snd (fetchWithAuth e net u options st)) = cookieStore st"
    unfolding run by simp
  from run jar original both refresh_only show ?thesis
    unfolding retried by blast
qed

theorem fetchWithAuth_empty_renewal_witness:
  "getRefreshToken (cookieStore (example_state example_store)) = Some ''BBB''
   \<and> getAuthToken (cookieStore (example_state example_store)) = Some ''AAA''
   \<and> ok (example_response 200 []) \<and> getSetCookie (example_response 200 []) = []
   \<and> fetchWithAuth example_env
       (scripted [Inr (example_response 401 []), Inr (example_response 200 []),
                  Inr (example_response 401 [])])
       ''/api/user/stats'' (example_options [] None) (example_state example_store)
     = (Inr (example_response 401 []),
        (example_state example_store)
          \<lparr>sent := [auth_request ''/api/user/stats'' (example_options [] None) example_store,
                    refresh_request example_env ''BBB'',
                    auth_request ''/api/user/stats'' (example_options [] None) example_store]\<rparr>)
   \<and> map_of (headers (snd (last (sent (snd (fetchWithAuth example_env
       (scripted [Inr (example_response 401 []), Inr (example_response 200 []),
                  Inr (example_response 401 [])])
       ''/api/user/stats'' (example_options [] None) (example_state example_store)))))))
       ''Cookie'' = Some ''access_token=AAA; refresh_token=BBB''"
proof -
  let ?run = "fetchWithAuth example_env
       (scripted [Inr (example_response 401 []), Inr (example_response 200 []),
                  Inr (example_response 401 [])])
       ''/api/user/stats'' (example_options [] None) (example_state example_store)"
  let ?st = "example_state example_store"
  let ?req = "auth_request ''/api/user/stats'' (example_options [] None) (cookieStore ?st)"
  have tok: "getRefreshToken (cookieStore ?st) = Some ''BBB''"
    by (simp add: example_state_def example_store_def getRefreshToken_def cookieStore_get_def)
  have acc_tok: "getAuthToken (cookieStore ?st) = Some ''AAA''"
    by (simp add: example_state_def example_store_def getAuthToken_def cookieStore_get_def)
  have acc: "ok (example_response 200 [])" "getSetCookie (example_response 200 []) = []"
    by (simp_all add: ok_def example_response_def)
  have caller: "''Cookie'' \<notin> fst ` set (headers (example_options [] None))"
    by (simp add: example_options_def)
  have inst: "?run = (Inr (example_response 401 []),
        ?st\<lparr>sent := sent ?st @ [?req, refresh_request example_env ''BBB'', ?req]\<rparr>)
     \<and> cookieStore (snd ?run) = cookieStore ?st
     \<and> fst (last (sent (snd ?run))) = ''/api/user/stats''
     \<and> method (snd (last (sent (snd ?run)))) = method (example_options [] None)
     \<and> body (snd (last (sent (snd ?run)))) = body (example_options [] None)
     \<and> (\<forall>a. getAuthToken (cookieStore ?st) = Some a \<and> a \<noteq> []
             \<and> ''Cookie'' \<notin> fst ` set (headers (example_options [] None)) \<longrightarrow>
           map_of (headers (snd (last (sent (snd ?run))))) ''Cookie''
             = Some (''access_token='' @ a @ ''; refresh_token='' @ ''BBB''))
     \<and> (\<not> truthy (getAuthToken (cookieStore ?st))
           \<and> ''Cookie'' \<notin> fst ` set (headers (example_options [] None)) \<longrightarrow>
           map_of (headers (snd (last (sent (snd ?run))))) ''Cookie''
             = Some (''refresh_token='' @ ''BBB''))"
    by (rule fetchWithAuth_empty_renewal [where resp = "example_response 401 []"
          and rr = "example_response 200 []"])
       (simp_all add: scripted_def example_response_def example_options_def
          example_state_def example_store_def getRefreshToken_def cookieStore_get_def ok_def)
  then have run: "?run = (Inr (example_response 401 []),
        ?st\<lparr>sent := sent ?st @ [?req, refresh_request example_env ''BBB'', ?req]\<rparr>)"
    by (rule conjunct1)
  from inst acc_tok caller
  have "map_of (headers (snd (last (sent (snd ?run))))) ''Cookie''
          = Some (''access_token='' @ ''AAA'' @ ''; refresh_token='' @ ''BBB'')"
    by blast
  then have carried: "map_of (headers (snd (last (sent (snd ?run))))) ''Cookie''
          = Some ''access_token=AAA; refresh_token=BBB''"
    by simp
  have shape: "?run = (Inr (example_response 401 []),
        (example_state example_store)
          \<lparr>sent := [auth_request ''/api/user/stats'' (example_options [] None) example_store,
                    refresh_request example_env ''BBB'',
                    auth_request ''/api/user/stats'' (example_options [] None) example_store]\<rparr>)"
    using run by (simp add: example_state_def)
  from tok acc_tok acc shape carried show ?thesis by blast
qed

section \<open>Renewal followed by the retry\<close>

text \<open>
  Claim C1, as stated, fails when the caller passes a \<^verbatim>\<open>Cookie\<close> header of their own: the
  caller's headers are spread last, so the retry carries the caller's cookie (here the
  stale access token) although the renewed token \<^verbatim>\<open>CCC\<close> was stored.
\<close>

theorem fetchWithAuth_retry_caller_cookie_counterexample:
  "getAuthToken (cookieStore (snd (fetchWithAuth example_env
       (scripted [Inr (example_response 401 []),
                  Inr (example_response 200 [''access_token=CCC; Path=/; HttpOnly'',
                                             ''refresh_token=DDD; Path=/; HttpOnly'']),
                  Inr (example_response 200 [])])
       ''/api/user/stats'' (example_options [(''Cookie'', ''access_token=AAA'')] None)
       (example_state example_store)))) = Some ''CCC''
   \<and> map_of (headers (snd (last (sent (snd (fetchWithAuth example_env
       (scripted [Inr (example_response 401 []),
                  Inr (example_response 200 [''access_token=CCC; Path=/; HttpOnly'',
                                             ''refresh_token=DDD; Path=/; HttpOnly'']),
                  Inr (example_response 200 [])])
       ''/api/user/stats'' (example_options [(''Cookie'', ''access_token=AAA'')] None)
       (example_state example_store))))))) ''Cookie'' = Some ''access_token=AAA''"
proof -
  let ?rr = "example_response 200 [''access_token=CCC; Path=/; HttpOnly'',
                                   ''refresh_token=DDD; Path=/; HttpOnly'']"
  let ?net = "scripted [Inr (example_response 401 []), Inr ?rr, Inr (example_response 200 [])]"
  let ?opts = "example_options [(''Cookie'', ''access_token=AAA'')] None"
  let ?st = "example_state example_store"
  let ?cs' = "extractAndSetCookies example_env (getSetCookie ?rr) (cookieStore ?st)"
  have run: "fetchWithAuth example_env ?net ''/api/user/stats'' ?opts ?st
     = (Inr (example_response 200 []),
        ?st\<lparr>cookieStore := ?cs',
            sent := sent ?st @ [auth_request ''/api/user/stats'' ?opts (cookieStore ?st),
                              refresh_request example_env ''BBB'',
                              auth_request ''/api/user/stats'' ?opts ?cs']\<rparr>)"
    by (rule fetchWithAuth_after_accepted_renewal [where resp = "example_response 401 []"])
       (simp_all add: scripted_def example_response_def example_options_def
          example_state_def example_store_def getRefreshToken_def cookieStore_get_def ok_def)
  have "extractAndSetCookies example_env
          ([] @ ''access_token=CCC; Path=/; HttpOnly'' # [''refresh_token=DDD; Path=/; HttpOnly''])
          (cookieStore ?st) ''access_token'' = Some (stored_cookie example_env ''CCC'' 900)"
    by (rule extractAndSetCookies_access_last) simp_all
  then have stored: "getAuthToken ?cs' = Some ''CCC''"
    by (simp add: getAuthToken_def cookieStore_get_def stored_cookie_def example_response_def)
  have carried: "map_of (headers (snd (auth_request ''/api/user/stats'' ?opts ?cs'))) ''Cookie''
                   = Some ''access_token=AAA''"
    by (simp add: auth_request_def map_of_spread example_options_def)
  from stored carried show ?thesis
    unfolding run by simp
qed

text \<open>
  Claim C1, amended. When the first call yields a 401, renewal is enabled, a refresh token
  is present and the renewal call returns a success status, the calls issued are the first
  one, one renewal call and one retry of the original request, in that order, and nothing
  else. The retry's headers are built from the jar as it stands after the directives of
  the renewal response were stored, with the caller's headers spread over them: when the
  renewal response carries an access directive and the caller passes no \<^verbatim>\<open>Cookie\<close> header,
  the retry's \<^verbatim>\<open>Cookie\<close> header begins with the access token stored from the renewal
  response. The response of the retry, whatever its status (a 401 too), is the result;
  no second renewal is attempted.
\<close>

theorem fetchWithAuth_refresh_then_retry:
  assumes "net (sent st) (auth_request u options (cookieStore st)) = Inr resp"
      and "status resp = 401"
      and "\<not> truthy_flag (skipRefresh options)"
      and "getRefreshToken (cookieStore st) = Some rt"
      and "rt \<noteq> []"
      and "net (sent st @ [auth_request u options (cookieStore st)]) (refresh_request e rt)
             = Inr rr"
      and "ok rr"
      and "net (sent st @ [auth_request u options (cookieStore st), refresh_request e rt])
             (auth_request u options (extractAndSetCookies e (getSetCookie rr) (cookieStore st)))
           = Inr retry"
  shows "fetchWithAuth e net u options st =
           (Inr retry,
            st\<lparr>cookieStore := extractAndSetCookies e (getSetCookie rr) (cookieStore st),
               sent := sent st @ [auth_request u options (cookieStore st), refresh_request e rt,
                 auth_request u options
                   (extractAndSetCookies e (getSetCookie rr) (cookieStore st))]\<rparr>)
         \<and> (\<forall>pre h post v.
               getSetCookie rr = pre @ h # post
               \<and> match_token ''access_token='' h = Some v
               \<and> (\<forall>h'\<in>set post. match_token ''access_token='' h' = None)
               \<and> ''Cookie'' \<notin> fst ` set (headers options)
               \<longrightarrow> getAuthToken (extractAndSetCookies e (getSetCookie rr) (cookieStore st))
                     = Some v
                 \<and> (\<exists>rest. map_of (headers (snd (auth_request u options
                       (extractAndSetCookies e (getSetCookie rr) (cookieStore st))))) ''Cookie''
                     = Some (''access_token='' @ v @ rest)))"
proof -
  let ?cs' = "extractAndSetCookies e (getSetCookie rr) (cookieStore st)"
  have run: "fetchWithAuth e net u options st =
           (Inr retry, st\<lparr>cookieStore := ?cs',
               sent := sent st @ [auth_request u options (cookieStore st), refresh_request e rt,
                                  auth_request u options ?cs']\<rparr>)"
    using assms by (rule fetchWithAuth_after_accepted_renewal)
  have carried: "getAuthToken ?cs' = Some v
        \<and> (\<exists>rest. map_of (headers (snd (auth_request u options ?cs'))) ''Cookie''
                     = Some (''access_token='' @ v @ rest))"
    if split: "getSetCookie rr = pre @ h # post"
      and m: "match_token ''access_token='' h = Some v"
      and later: "\<forall>h'\<in>set post. match_token ''access_token='' h' = None"
      and caller: "''Cookie'' \<notin> fst ` set (headers options)"
    for pre h post v
  proof -
    have "?cs' ''access_token'' = Some (stored_cookie e v 900)"
      using extractAndSetCookies_access_last [OF m later] split by simp
    then have tok: "getAuthToken ?cs' = Some v"
      by (simp add: getAuthToken_def cookieStore_get_def stored_cookie_def)
    have "v \<noteq> []" using m by (rule match_token_nonempty)
    with tok obtain rest where
      "map_of (getAuthHeaders ?cs') ''Cookie'' = Some (''access_token='' @ v @ rest)"
      using getAuthHeaders_Cookie_access by blast
    with caller have "map_of (headers (snd (auth_request u options ?cs'))) ''Cookie''
                     = Some (''access_token='' @ v @ rest)"
      by (simp add: auth_request_def map_of_spread_absent)
    with tok show ?thesis by blast
  qed
  from run carried show ?thesis by blast
qed

theorem fetchWithAuth_refresh_then_retry_witness:
  "getRefreshToken (cookieStore (example_state example_store)) = Some ''BBB''
   \<and> match_token ''access_token='' ''access_token=CCC; Path=/; HttpOnly'' = Some ''CCC''
   \<and> fetchWithAuth example_env
       (scripted [Inr (example_response 401 []),
                  Inr (example_response 200 [''access_token=CCC; Path=/; HttpOnly'',
                                             ''refresh_token=DDD; Path=/; HttpOnly'']),
                  Inr (example_response 401 [])])
       ''/api/user/stats'' (example_options [] None) (example_state example_store)
     = (Inr (example_response 401 []),
        (example_state example_store)
          \<lparr>cookieStore := extractAndSetCookies example_env
              [''access_token=CCC; Path=/; HttpOnly'', ''refresh_token=DDD; Path=/; HttpOnly'']
              example_store,
           sent := [auth_request ''/api/user/stats'' (example_options [] None) example_store,
                    refresh_request example_env ''BBB'',
                    auth_request ''/api/user/stats'' (example_options [] None)
                      (extractAndSetCookies example_env
                         [''access_token=CCC; Path=/; HttpOnly'',
                          ''refresh_token=DDD; Path=/; HttpOnly'']
                         example_store)]\<rparr>)
   \<and> getAuthToken (extractAndSetCookies example_env
        [''access_token=CCC; Path=/; HttpOnly'', ''refresh_token=DDD; Path=/; HttpOnly'']
        example_store) = Some ''CCC''
   \<and> (\<exists>rest. map_of (headers (snd (auth_request ''/api/user/stats'' (example_options [] None)
          (extractAndSetCookies example_env
             [''access_token=CCC; Path=/; HttpOnly'', ''refresh_token=DDD; Path=/; HttpOnly'']
             example_store)))) ''Cookie''
        = Some (''access_token='' @ ''CCC'' @ rest))"
proof -
  let ?rr = "example_response 200 [''access_token=CCC; Path=/; HttpOnly'',
                                   ''refresh_token=DDD; Path=/; HttpOnly'']"
  let ?net = "scripted [Inr (example_response 401 []), Inr ?rr, Inr (example_response 401 [])]"
  let ?opts = "example_options [] None"
  let ?st = "example_state example_store"
  let ?cs' = "extractAndSetCookies example_env (getSetCookie ?rr) (cookieStore ?st)"
  have tok: "getRefreshToken (cookieStore ?st) = Some ''BBB''"
    by (simp add: example_state_def example_store_def getRefreshToken_def cookieStore_get_def)
  have m: "match_token ''access_token='' ''access_token=CCC; Path=/; HttpOnly'' = Some ''CCC''"
    by simp
  have inst: "fetchWithAuth example_env ?net ''/api/user/stats'' ?opts ?st =
           (Inr (example_response 401 []),
            ?st\<lparr>cookieStore := ?cs',
                sent := sent ?st @ [auth_request ''/api/user/stats'' ?opts (cookieStore ?st),
                                  refresh_request example_env ''BBB'',
                                  auth_request ''/api/user/stats'' ?opts ?cs']\<rparr>)
         \<and> (\<forall>pre h post v.
               getSetCookie ?rr = pre @ h # post
               \<and> match_token ''access_token='' h = Some v
               \<and> (\<forall>h'\<in>set post. match_token ''access_token='' h' = None)
               \<and> ''Cookie'' \<notin> fst ` set (headers ?opts)
               \<longrightarrow> getAuthToken ?cs' = Some v
                 \<and> (\<exists>rest. map_of (headers (snd (auth_request ''/api/user/stats'' ?opts ?cs')))
                              ''Cookie''
                     = Some (''access_token='' @ v @ rest)))"
    by (rule fetchWithAuth_refresh_then_retry [where resp = "example_response 401 []"])
       (simp_all add: scripted_def example_response_def example_options_def
          example_state_def example_store_def getRefreshToken_def cookieStore_get_def ok_def)
  then have run: "fetchWithAuth example_env ?net ''/api/user/stats'' ?opts ?st =
           (Inr (example_response 401 []),
            ?st\<lparr>cookieStore := ?cs',
                sent := sent ?st @ [auth_request ''/api/user/stats'' ?opts (cookieStore ?st),
                                  refresh_request example_env ''BBB'',
                                  auth_request ''/api/user/stats'' ?opts ?cs']\<rparr>)"
    by (rule conjunct1)
  have split: "getSetCookie ?rr
      = [] @ ''access_token=CCC; Path=/; HttpOnly'' # [''refresh_token=DDD; Path=/; HttpOnly'']"
    by (simp add: example_response_def)
  have later: "\<forall>h'\<in>set [''refresh_token=DDD; Path=/; HttpOnly''].
                 match_token ''access_token='' h' = None"
    by simp
  have caller: "''Cookie'' \<notin> fst ` set (headers ?opts)"
    by (simp add: example_options_def)
  from inst split m later caller
  have carried: "getAuthToken ?cs' = Some ''CCC''
     \<and> (\<exists>rest. map_of (headers (snd (auth_request ''/api/user/stats'' ?opts ?cs'))) ''Cookie''
                  = Some (''access_token='' @ ''CCC'' @ rest))"
    by blast
  from tok m run carried show ?thesis
    by (simp add: example_state_def example_response_def)
qed

end
